theory Spec2Isabelle
  imports Main "HOL-Library.AList" "HOL-Library.Word"
begin

section \<open>The local development server\<close>

text \<open>
  The repository holds two variants of the \<open>DevServer\<close> class. Variant A is
  \<^verbatim>\<open>src/unnamed/part_001\<close>: it serves built assets (static files, blobs, Lambdas).
  Variant B is the second document of \<^verbatim>\<open>src/src/util/report-error.js\<close>: it adds the
  dotenv validation, the build environment, the \<open>stopping\<close> flag and the build-match
  registry, and has the asset-serving half of its request handler commented out.
  Functions whose bodies are the same in both variants are embedded once; where the two
  differ the embedding carries the suffix \<open>_A\<close> or \<open>_B\<close>.

  Log output (\<open>console.log\<close>, \<open>output.debug\<close>, ...) is not part of the model.
\<close>

subsection \<open>JavaScript strings and objects\<close>

text \<open>
  A string is a \<open>char list\<close>. A plain object is the list of its own enumerable
  properties in \<open>Object.keys\<close> order; \<open>AList.update\<close> is the assignment
  \<open>obj[key] = value\<close> (an existing key keeps its place, a new one goes last) and
  \<open>AList.delete\<close> is \<open>delete obj[key]\<close>.
\<close>

type_synonym 'v js_object = "(string \<times> 'v) list"

definition Object_keys :: "'v js_object \<Rightarrow> string list" where
  "Object_keys obj = map fst obj"

definition Object_values :: "'v js_object \<Rightarrow> 'v list" where
  "Object_values obj = map snd obj"

definition hasOwnProperty :: "'v js_object \<Rightarrow> string \<Rightarrow> bool" where
  "hasOwnProperty obj prop \<longleftrightarrow> prop \<in> set (Object_keys obj)"

text \<open>\<open>Object.assign(target, source)\<close>, also the spread \<open>{...source}\<close> on an empty target.\<close>

definition Object_assign :: "'v js_object \<Rightarrow> 'v js_object \<Rightarrow> 'v js_object" where
  "Object_assign target source = fold (\<lambda>(key, value). AList.update key value) source target"

definition startsWith :: "string \<Rightarrow> string \<Rightarrow> bool" where
  "startsWith s p \<longleftrightarrow> take (length p) s = p"

text \<open>\<open>s.slice(-n)\<close>: the last \<open>n\<close> characters, the whole string when it is shorter.\<close>

definition slice_last :: "nat \<Rightarrow> string \<Rightarrow> string" where
  "slice_last n s = drop (length s - n) s"

fun join :: "string \<Rightarrow> string list \<Rightarrow> string" where
  "join sep [] = []"
| "join sep [x] = x"
| "join sep (x # y # ys) = x @ sep @ join sep (y # ys)"

definition digit_char :: "nat \<Rightarrow> char" where
  "digit_char d = ''0123456789abcdefghijklmnopqrstuv'' ! d"

text \<open>The decimal rendering of a non-negative integer, as a template literal or \<open>join\<close> gives it.\<close>

fun show_nat :: "nat \<Rightarrow> string" where
  "show_nat n = (if n < 10 then [digit_char n] else show_nat (n div 10) @ [digit_char (n mod 10)])"

declare show_nat.simps [simp del]

text \<open>\<open>buffer.toString('hex')\<close>: two lowercase hexadecimal digits for each byte.\<close>

definition hex_byte :: "8 word \<Rightarrow> string" where
  "hex_byte b = [digit_char (unat b div 16), digit_char (unat b mod 16)]"

definition toString_hex :: "8 word list \<Rightarrow> string" where
  "toString_hex bytes = concat (map hex_byte bytes)"

definition toLowerCase_char :: "char \<Rightarrow> char" where
  "toLowerCase_char c =
     (case map_of (zip ''ABCDEFGHIJKLMNOPQRSTUVWXYZ'' ''abcdefghijklmnopqrstuvwxyz'') c of
        Some d \<Rightarrow> d
      | None \<Rightarrow> c)"

definition toLowerCase :: "string \<Rightarrow> string" where
  "toLowerCase s = map toLowerCase_char s"

subsection \<open>Errors\<close>

text \<open>
  A thrown value is either a plain \<open>Error\<close> (with the \<open>code\<close> Node attaches to system
  errors, when there is one, and its message) or the \<open>MissingDotenvVarsError\<close> of
  \<^verbatim>\<open>util/errors-ts\<close>, built from the env file's name and the missing names.
\<close>

datatype js_error =
    Error "string option" string
  | MissingDotenvVarsError string "string list"

fun err_code :: "js_error \<Rightarrow> string option" where
  "err_code (Error c m) = c"
| "err_code (MissingDotenvVarsError t ms) = None"

subsection \<open>The request trace id\<close>

text \<open>
  \<open>generateRequestId\<close> reads three outside sources: \<open>Math.random().toString(32)\<close>,
  \<open>Date.now()\<close> and \<open>randomBytes(16)\<close>. They are the three arguments here.
\<close>

definition generateRequestId :: "string \<Rightarrow> nat \<Rightarrow> 8 word list \<Rightarrow> string" where
  "generateRequestId random32 now bytes =
     join ''-'' [slice_last 5 random32, show_nat now, toString_hex bytes]"

subsection \<open>Binding the port\<close>

text \<open>
  The \<open>while\<close> loop of \<open>start\<close>, the same in both variants. \<open>listen\<close> is what
  \<open>async-listen\<close> answers for a port: the address, or the error it throws. The loop
  has no bound of its own, so not returning is the value \<open>None\<close>.
\<close>

datatype listen_result = Address string | Throws js_error

partial_function (option) start_listen ::
  "(nat \<Rightarrow> listen_result) \<Rightarrow> nat \<Rightarrow> (js_error + string \<times> nat) option" where
  "start_listen listen port =
     (case listen port of
        Address address \<Rightarrow> Some (Inr (address, port))
      | Throws err \<Rightarrow>
          if err_code err = Some ''EADDRINUSE'' then start_listen listen (port + 1)
          else Some (Inl err))"

subsection \<open>Project configuration and environment (variant B)\<close>

text \<open>
  A value of an \<open>env\<close> mapping of \<^verbatim>\<open>now.json\<close>: a string, or some other JSON scalar,
  kept as the text \<open>String(value)\<close> gives (what an assignment to \<open>process.env\<close> stores).
\<close>

datatype env_value = EnvString string | EnvOther string

fun String_of :: "env_value \<Rightarrow> string" where
  "String_of (EnvString s) = s"
| "String_of (EnvOther s) = s"

record build_section =
  build_env :: "env_value js_object option"

record ('r, 'b) now_config =
  version :: "nat option"
  config_env :: "env_value js_object option"
  build :: "build_section option"
  routes :: "'r option"
  builds :: "'b list option"

definition validateEnvConfig ::
  "string \<Rightarrow> env_value js_object option \<Rightarrow> string js_object \<Rightarrow> js_error + unit" where
  "validateEnvConfig type env localEnv =
     (let missing =
        map fst
          (filter
            (\<lambda>(name, value).
               (case value of
                  EnvString s \<Rightarrow> startsWith s ''@'' \<and> \<not> hasOwnProperty localEnv name
                | EnvOther s \<Rightarrow> False))
            (case env of None \<Rightarrow> [] | Some e \<Rightarrow> e))
      in if length missing \<ge> 1 then Inl (MissingDotenvVarsError type missing) else Inr ())"

subsection \<open>Built assets and their resolution\<close>

text \<open>
  \<open>BuilderOutput\<close> is declared in \<^verbatim>\<open>./types\<close>, which is not among the sources; the
  fields are the ones the server reads: the \<open>type\<close> tag with the fields of that type,
  and \<open>buildEntry\<close> (kept as its \<open>fsPath\<close>). A Lambda's \<open>fn\<close> is a handle: calling and
  destroying it are effects outside the server. \<open>UnknownType\<close> stands for a value whose
  tag is none of the three, with the text \<open>${asset.type}\<close> renders.
\<close>

type_synonym fn_handle = nat

datatype asset_type =
    FileFsRef string
  | FileBlob "8 word list"
  | Lambda "fn_handle option"
  | UnknownType string

record builder_output =
  type :: asset_type
  buildEntry :: "string option"

type_synonym builder_outputs = "builder_output js_object"












subsection \<open>Requests and responses\<close>

text \<open>
  Of \<open>http.IncomingMessage\<close> the server reads the method, the url, the headers (Node
  gives their names in lower case), the peer address and the body. Of
  \<open>http.ServerResponse\<close> it writes the status code, the headers and the body.
  \<open>setHeader\<close> and \<open>getHeader\<close> compare names without regard to case, so the headers
  are kept under their lower-case names.
\<close>

record request =
  req_method :: "string option"
  url :: "string option"
  req_headers :: "string js_object"
  remoteAddress :: "string option"
  req_body :: "8 word list"

datatype body = BodyString string | BodyBuffer "8 word list"

record response =
  statusCode :: nat
  res_headers :: "string js_object"
  res_body :: "body option"

definition new_response :: response where
  "new_response = \<lparr>statusCode = 200, res_headers = [], res_body = None\<rparr>"

definition setHeader :: "string \<Rightarrow> string \<Rightarrow> response \<Rightarrow> response" where
  "setHeader name value res =
     res\<lparr>res_headers := AList.update (toLowerCase name) value (res_headers res)\<rparr>"

definition getHeader :: "response \<Rightarrow> string \<Rightarrow> string option" where
  "getHeader res name = map_of (res_headers res) (toLowerCase name)"

text \<open>
  How a request ends: the server ends the response itself, or hands request and response
  to the proxy (\<open>proxyPass\<close>, with the target) or to the static file handler
  (\<open>serveStaticFile\<close>, with the request's url and the public directory). The response
  carried is the one the server has prepared at that point.
\<close>

datatype outcome =
    Ended response
  | ProxyPass response string
  | ServeStaticFile response "string option" string

definition end_response :: "response \<Rightarrow> body option \<Rightarrow> outcome" where
  "end_response res data = Ended (res\<lparr>res_body := data\<rparr>)"

text \<open>
  \<open>writeResponseHeaders\<close> (variant A) and \<open>setResponseHeaders\<close> (variant B) have the same
  body: the three Now headers are written after the entries of \<open>headers\<close>.
\<close>

definition writeResponseHeaders :: "response \<Rightarrow> string \<Rightarrow> string js_object \<Rightarrow> response" where
  "writeResponseHeaders res nowRequestId headers =
     (let allHeaders =
        AList.update ''x-now-cache'' ''MISS''
          (AList.update ''x-now-id'' nowRequestId
            (AList.update ''x-now-trace'' ''dev1'' (Object_assign [] headers)))
      in fold (\<lambda>(name, value). setHeader name value) allHeaders res)"

definition setResponseHeaders :: "response \<Rightarrow> string \<Rightarrow> string js_object \<Rightarrow> response" where
  "setResponseHeaders res nowRequestId headers =
     (let allHeaders =
        AList.update ''x-now-cache'' ''MISS''
          (AList.update ''x-now-id'' nowRequestId
            (AList.update ''x-now-trace'' ''dev1'' (Object_assign [] headers)))
      in fold (\<lambda>(name, value). setHeader name value) allHeaders res)"

definition sendError :: "response \<Rightarrow> string \<Rightarrow> string \<Rightarrow> string \<Rightarrow> nat \<Rightarrow> outcome" where
  "sendError res nowRequestId code message status_code =
     end_response
       (writeResponseHeaders (res\<lparr>statusCode := status_code\<rparr>) nowRequestId [])
       (Some (BodyString
         (show_nat status_code @ '': '' @ message @ [CHR 0x0A] @ ''Code: '' @ code @ [CHR 0x0A])))"

definition send404 :: "response \<Rightarrow> string \<Rightarrow> outcome" where
  "send404 res nowRequestId =
     sendError res nowRequestId ''FILE_NOT_FOUND'' ''The page could not be found'' 404"



subsection \<open>Base64 (Node's \<open>Buffer\<close>)\<close>


fun index_of :: "char \<Rightarrow> string \<Rightarrow> nat option" where
  "index_of c [] = None"
| "index_of c (x # xs) = (if x = c then Some 0 else map_option Suc (index_of c xs))"






subsection \<open>Routing decisions and Lambda invocations\<close>

text \<open>
  What \<open>devRouter\<close> returns (\<^verbatim>\<open>./dev-router\<close> is not among the sources), without
  \<open>matched_route\<close>, which only the log lines read. The callers give \<open>status\<close> the default
  \<open>200\<close> and \<open>headers\<close> the default \<open>{}\<close>.
\<close>

record route_result =
  dest :: string
  status :: "nat option"
  headers :: "string js_object option"
  uri_args :: "string js_object option"



text \<open>\<open>s.split(c)\<close> and \<open>array[i]\<close>, which is \<open>undefined\<close> beyond the end.\<close>

fun split :: "char \<Rightarrow> string \<Rightarrow> string list" where
  "split c [] = [[]]"
| "split c (x # xs) =
     (if x = c then [] # split c xs
      else (case split c xs of
              p # ps \<Rightarrow> (x # p) # ps
            | [] \<Rightarrow> [[x]]))"



subsection \<open>Serving a request (variant A)\<close>


text \<open>Of the fields of the class, the two the serving functions read.\<close>

record dev_server_A =
  cwd :: string
  assets :: builder_outputs

definition proxyPass :: "response \<Rightarrow> string \<Rightarrow> outcome" where
  "proxyPass res target = ProxyPass res target"

definition serveStaticFile :: "string option \<Rightarrow> response \<Rightarrow> string \<Rightarrow> outcome" where
  "serveStaticFile req_url res public = ServeStaticFile res req_url public"






subsection \<open>The server of variant B\<close>

record build_match =
  src :: string
  use :: string

datatype http_server = NotListening | Listening nat | Closed

text \<open>
  \<open>buildMatches\<close> and \<open>inProgressBuilds\<close> are \<open>Map\<close>s: like an object, a \<open>Map\<close> keeps
  its keys in insertion order. An in-progress build is a promise, here its number.
  \<open>process.env\<close> is not a field of the class: the functions that touch it take it and
  return it.
\<close>

record dev_server_B =
  cwd :: string
  env :: "string js_object"
  buildEnv :: "string js_object"
  assets :: builder_outputs
  server :: http_server
  stopping :: bool
  buildMatches :: "build_match js_object"
  inProgressBuilds :: "nat js_object"
  originalEnv :: "string js_object"

definition constructor_B :: "string \<Rightarrow> string js_object \<Rightarrow> dev_server_B" where
  "constructor_B dir process_env =
     \<lparr>cwd = dir, env = [], buildEnv = [], assets = [], server = NotListening,
      stopping = False, buildMatches = [], inProgressBuilds = [],
      originalEnv = Object_assign [] process_env\<rparr>"

definition validateNowConfig_B :: "dev_server_B \<Rightarrow> ('r, 'b) now_config \<Rightarrow> js_error + unit" where
  "validateNowConfig_B this config =
     (if version config \<noteq> Some 2 then
        Inl (Error None ''Only `version: 2` is supported by `now dev`'')
      else
        (case validateEnvConfig ''.env'' (config_env config) (env this) of
           Inl err \<Rightarrow> Inl err
         | Inr u \<Rightarrow>
             validateEnvConfig ''.env.build''
               (case build config of None \<Rightarrow> None | Some b \<Rightarrow> build_env b)
               (buildEnv this)))"

definition applyBuildEnv ::
  "dev_server_B \<Rightarrow> ('r, 'b) now_config \<Rightarrow> string js_object \<Rightarrow> string js_object" where
  "applyBuildEnv this nowJson process_env =
     (let config_build_env = (case build nowJson of None \<Rightarrow> None | Some b \<Rightarrow> build_env b) in
      Object_assign
        (Object_assign process_env
           (case config_build_env of
              None \<Rightarrow> []
            | Some e \<Rightarrow> map (\<lambda>(name, value). (name, String_of value)) e))
        (buildEnv this))"

definition restoreOriginalEnv :: "dev_server_B \<Rightarrow> string js_object \<Rightarrow> string js_object" where
  "restoreOriginalEnv this process_env =
     Object_assign
       (fold (\<lambda>key e. if \<not> hasOwnProperty (originalEnv this) key then AList.delete key e else e)
          (Object_keys process_env) process_env)
       (originalEnv this)"

text \<open>\<open>updateBuildMatches\<close>, given what \<open>getBuildMatches\<close> has answered.\<close>

definition updateBuildMatches :: "dev_server_B \<Rightarrow> build_match list \<Rightarrow> dev_server_B" where
  "updateBuildMatches this matches =
     (let sources = map src matches;
          kept = fold (\<lambda>s bm. if s \<notin> set sources then AList.delete s bm else bm)
                   (Object_keys (buildMatches this)) (buildMatches this);
          added = fold (\<lambda>match bm.
                     (case map_of bm (src match) of
                        None \<Rightarrow> AList.update (src match) match bm
                      | Some currentMatch \<Rightarrow>
                          if use currentMatch \<noteq> use match then AList.update (src match) match bm
                          else bm))
                    matches kept
      in this\<lparr>buildMatches := added\<rparr>)"

text \<open>
  \<open>getNowJson\<close>, given what reading and parsing \<^verbatim>\<open>now.json\<close> has produced (the
  configuration, or the error thrown). The \<open>catch\<close> lets only \<open>ENOENT\<close> pass.
\<close>

definition getNowJson_B ::
  "dev_server_B \<Rightarrow> js_error + ('r, 'b) now_config \<Rightarrow> js_error + ('r, 'b) now_config option" where
  "getNowJson_B this file =
     (case (case file of
              Inl err \<Rightarrow> Inl err
            | Inr config \<Rightarrow>
                (case validateNowConfig_B this config of
                   Inl err \<Rightarrow> Inl err
                 | Inr u \<Rightarrow> Inr config)) of
        Inr config \<Rightarrow> Inr (Some config)
      | Inl err \<Rightarrow> if err_code err \<noteq> Some ''ENOENT'' then Inl err else Inr None)"

text \<open>
  \<open>stop\<close>. \<open>close\<close> resolves once the listening server has closed and rejects when the
  server is not listening. \<open>stop_begin\<close> is \<open>stop\<close> up to its \<open>await\<close>: the state it
  leaves and the handles whose \<open>destroy()\<close> it has called (\<open>close\<close> has been called too),
  or \<open>None\<close> when it returns at once. \<open>destroy\<close> tells for each handle whether its
  promise rejects. \<open>Promise.all\<close> rejects with the first rejection; which one comes
  first is a matter of time, the model takes the first in the order of \<open>ops\<close>.
\<close>

definition close :: "http_server \<Rightarrow> (js_error + unit) \<times> http_server" where
  "close srv =
     (case srv of
        Listening port \<Rightarrow> (Inr (), Closed)
      | other \<Rightarrow> (Inl (Error (Some ''ERR_SERVER_NOT_RUNNING'') ''Server is not running.''), other))"

definition lambda_fn :: "builder_output \<Rightarrow> fn_handle option" where
  "lambda_fn asset = (case type asset of Lambda fn \<Rightarrow> fn | other \<Rightarrow> None)"

definition stop_begin :: "dev_server_B \<Rightarrow> (dev_server_B \<times> fn_handle list) option" where
  "stop_begin this =
     (if stopping this then None
      else Some (this\<lparr>stopping := True\<rparr>,
                 List.map_filter lambda_fn (Object_values (assets this))))"

record stop_result =
  settled :: "js_error + unit"
  destroyed :: "fn_handle list"
  after :: dev_server_B

definition stop :: "(fn_handle \<Rightarrow> js_error option) \<Rightarrow> dev_server_B \<Rightarrow> stop_result" where
  "stop destroy this =
     (case stop_begin this of
        None \<Rightarrow> \<lparr>settled = Inr (), destroyed = [], after = this\<rparr>
      | Some (this', fns) \<Rightarrow>
          (let (closed, srv) = close (server this');
               rejections = List.map_filter destroy fns @
                            (case closed of Inl err \<Rightarrow> [err] | Inr u \<Rightarrow> [])
           in \<lparr>settled = (case rejections of [] \<Rightarrow> Inr () | err # others \<Rightarrow> Inl err),
               destroyed = fns,
               after = this'\<lparr>server := srv\<rparr>\<rparr>))"

text \<open>
  What variant B calls and the sources do not hold: \<open>collectProjectFiles\<close> (only whether
  it throws matters, its result is logged), \<open>getBuildMatches\<close>, the router (which is
  handed the server), the URL test, and the message of a \<open>MissingDotenvVarsError\<close>.
\<close>

record ('r, 'b) collaborators_B =
  collectProjectFiles :: "string \<Rightarrow> js_error option"
  getBuildMatches :: "('r, 'b) now_config \<Rightarrow> string \<Rightarrow> js_error + build_match list"
  devRouter_B :: "string option \<Rightarrow> 'r option \<Rightarrow> dev_server_B \<Rightarrow> route_result"
  isURL_B :: "string \<Rightarrow> bool"
  dotenv_message :: "string \<Rightarrow> string list \<Rightarrow> string"

definition message :: "('r, 'b) collaborators_B \<Rightarrow> js_error \<Rightarrow> string" where
  "message io err =
     (case err of
        Error c m \<Rightarrow> m
      | MissingDotenvVarsError t missing \<Rightarrow> dotenv_message io t missing)"

definition serveProjectAsStatic_B :: "dev_server_B \<Rightarrow> request \<Rightarrow> response \<Rightarrow> string \<Rightarrow> outcome" where
  "serveProjectAsStatic_B this req res nowRequestId =
     serveStaticFile (url req) (setResponseHeaders res nowRequestId []) (cwd this)"

text \<open>
  \<open>serveProjectAsNowV2\<close> of variant B, as far as it is not commented out: after the
  redirect branch the response is ended with no body.
\<close>

definition serveProjectAsNowV2_B ::
  "('r, 'b) collaborators_B \<Rightarrow> dev_server_B \<Rightarrow> request \<Rightarrow> response \<Rightarrow> string \<Rightarrow>
   ('r, 'b) now_config \<Rightarrow> js_error + outcome \<times> dev_server_B" where
  "serveProjectAsNowV2_B io this req res nowRequestId nowJson =
     (case collectProjectFiles io (cwd this) of
        Some err \<Rightarrow> Inl err
      | None \<Rightarrow>
          (case getBuildMatches io nowJson (cwd this) of
             Inl err \<Rightarrow> Inl err
           | Inr matches \<Rightarrow>
               (let this' = updateBuildMatches this matches;
                    r = devRouter_B io (url req) (routes nowJson) this';
                    st = (case status r of None \<Rightarrow> 200 | Some s \<Rightarrow> s);
                    hdrs = (case headers r of None \<Rightarrow> [] | Some h \<Rightarrow> h);
                    res' = fold (\<lambda>(name, value). setHeader name value) hdrs res
                in if isURL_B io (dest r) then Inr (proxyPass res' (dest r), this')
                   else if st \<in> set [301, 302, 303] then
                     Inr (end_response (res'\<lparr>statusCode := st\<rparr>)
                            (Some (BodyString
                              (''Redirecting ('' @ show_nat st @ '') to '' @
                               (case getHeader res' ''location'' of
                                  None \<Rightarrow> ''undefined''
                                | Some l \<Rightarrow> l)))),
                          this')
                   else Inr (end_response res' None, this'))))"

text \<open>
  \<open>devServerHandler\<close> of variant B: the three sources of the trace id, the request, and
  what reading \<^verbatim>\<open>now.json\<close> gives. Whatever throws does so before the response has
  been touched, so the \<open>catch\<close> finds it unfinished.
\<close>

definition devServerHandler_B ::
  "('r, 'b) collaborators_B \<Rightarrow> dev_server_B \<Rightarrow> request \<Rightarrow> string \<Rightarrow> nat \<Rightarrow> 8 word list \<Rightarrow>
   js_error + ('r, 'b) now_config \<Rightarrow> outcome \<times> dev_server_B" where
  "devServerHandler_B io this req random32 now bytes file =
     (let nowRequestId = generateRequestId random32 now bytes;
          res = new_response
      in if stopping this then
           (send404 (setHeader ''Connection'' ''close'' res) nowRequestId, this)
         else
           (case (case getNowJson_B this file of
                    Inl err \<Rightarrow> Inl err
                  | Inr None \<Rightarrow> Inr (serveProjectAsStatic_B this req res nowRequestId, this)
                  | Inr (Some nowJson) \<Rightarrow>
                      serveProjectAsNowV2_B io this req res nowRequestId nowJson) of
              Inr served \<Rightarrow> served
            | Inl err \<Rightarrow>
                (end_response (res\<lparr>statusCode := 500\<rparr>) (Some (BodyString (message io err))),
                 this)))"

section \<open>Notions used by the properties\<close>




definition config_build_env :: "('r, 'b) now_config \<Rightarrow> env_value js_object option" where
  "config_build_env config = (case build config of None \<Rightarrow> None | Some b \<Rightarrow> build_env b)"

text \<open>A port is in use when \<open>listen\<close> throws an error with the code \<open>EADDRINUSE\<close> for it.\<close>

definition in_use :: "(nat \<Rightarrow> listen_result) \<Rightarrow> nat \<Rightarrow> bool" where
  "in_use listen port \<longleftrightarrow>
     (case listen port of
        Address a \<Rightarrow> False
      | Throws err \<Rightarrow> err_code err = Some ''EADDRINUSE'')"

text \<open>
  The format \<open><rand5>-<epochMillis>-<hex32>\<close> of a trace id: three fields between
  dashes, five base-32 digits, a decimal number, thirty-two lowercase hexadecimal digits.
  \<open>decimal_value\<close> reads a decimal numeral back.
\<close>

definition is_base32_digit :: "char \<Rightarrow> bool" where
  "is_base32_digit c \<longleftrightarrow> c \<in> set ''0123456789abcdefghijklmnopqrstuv''"

definition is_decimal_digit :: "char \<Rightarrow> bool" where
  "is_decimal_digit c \<longleftrightarrow> c \<in> set ''0123456789''"

definition is_hex_digit :: "char \<Rightarrow> bool" where
  "is_hex_digit c \<longleftrightarrow> c \<in> set ''0123456789abcdef''"

definition trace_id_format :: "string \<Rightarrow> bool" where
  "trace_id_format s \<longleftrightarrow>
     (case split CHR ''-'' s of
        [rand5, epochMillis, hex32] \<Rightarrow>
          length rand5 = 5 \<and> list_all is_base32_digit rand5 \<and>
          epochMillis \<noteq> [] \<and> list_all is_decimal_digit epochMillis \<and>
          length hex32 = 32 \<and> list_all is_hex_digit hex32
      | other \<Rightarrow> False)"

definition digit_value :: "char \<Rightarrow> nat" where
  "digit_value c = (case index_of c ''0123456789'' of Some d \<Rightarrow> d | None \<Rightarrow> 0)"

definition decimal_value :: "string \<Rightarrow> nat" where
  "decimal_value s = foldl (\<lambda>a c. 10 * a + digit_value c) 0 s"




text \<open>
  The body of the \<open>404\<close> answer, the headers of a routing decision with their default,
  and the body of a redirect, \<open>Redirecting (<status>) to <location>\<close>, where a missing
  \<open>Location\<close> header prints as \<open>undefined\<close>.
\<close>

definition not_found_body :: body where
  "not_found_body =
     BodyString (''404: The page could not be found'' @ [CHR 0x0A] @ ''Code: FILE_NOT_FOUND'' @ [CHR 0x0A])"






fun response_of :: "outcome \<Rightarrow> response" where
  "response_of (Ended res) = res"
| "response_of (ProxyPass res target) = res"
| "response_of (ServeStaticFile res u public) = res"

definition allHeaders :: "string \<Rightarrow> string js_object \<Rightarrow> string js_object" where
  "allHeaders nowRequestId hdrs =
     AList.update ''x-now-cache'' ''MISS''
       (AList.update ''x-now-id'' nowRequestId
         (AList.update ''x-now-trace'' ''dev1'' (Object_assign [] hdrs)))"







section \<open>Example inputs\<close>

definition ex_server :: dev_server_B where
  "ex_server =
     (constructor_B ''/project'' [(''PATH'', ''/usr/bin''), (''HOME'', ''/root'')])
       \<lparr>env := [(''API_KEY'', ''k1'')], buildEnv := [(''TOKEN'', ''local'')]\<rparr>"

definition ex_config :: "(unit, unit) now_config" where
  "ex_config =
     \<lparr>version = Some 2,
      config_env = Some [(''API_KEY'', EnvString ''@api-key''), (''DB_URL'', EnvString ''@db-url''),
                         (''MODE'', EnvString ''dev''), (''SMTP'', EnvString ''@smtp''),
                         (''PORT'', EnvOther ''8080'')],
      build = Some \<lparr>build_env = Some [(''NODE_ENV'', EnvString ''production''),
                                        (''PATH'', EnvString ''/build/bin'')]\<rparr>,
      routes = None, builds = None\<rparr>"

definition ex_listen :: "nat \<Rightarrow> listen_result" where
  "ex_listen port =
     (if port = 3000 \<or> port = 3001 then Throws (Error (Some ''EADDRINUSE'') ''address already in use'')
      else if port = 3002 then Address ''http://[::]:3002''
      else Throws (Error (Some ''EACCES'') ''permission denied''))"

definition ex_bytes :: "8 word list" where
  "ex_bytes = [0x78, 0x4e, 0xdb, 0xc9, 0xef, 0x03, 0xe2, 0xb5,
               0x53, 0x4f, 0x3d, 0xc6, 0xf1, 0x4c, 0x90, 0xd4]"



definition ex_about :: builder_output where
  "ex_about = \<lparr>type = FileBlob [60, 104, 49, 62], buildEntry = Some ''/project/about.md''\<rparr>"


definition ex_lambda :: builder_output where
  "ex_lambda = \<lparr>type = Lambda (Some 7), buildEntry = Some ''/project/api/hello.js''\<rparr>"

definition ex_unbuilt_lambda :: builder_output where
  "ex_unbuilt_lambda = \<lparr>type = Lambda None, buildEntry = Some ''/project/api/later.js''\<rparr>"

definition ex_running :: dev_server_B where
  "ex_running =
     ex_server\<lparr>assets := [(''about.html'', ex_about), (''api/hello'', ex_lambda),
                            (''api/later'', ex_unbuilt_lambda),
                            (''api/bye'', \<lparr>type = Lambda (Some 9), buildEntry = None\<rparr>)],
                 server := Listening 3000\<rparr>"

definition ex_request :: request where
  "ex_request =
     \<lparr>req_method = Some ''GET'', url = Some ''/old/page'',
      req_headers = [(''host'', ''localhost:3000''), (''accept'', ''*/*'')],
      remoteAddress = Some ''127.0.0.1'', req_body = []\<rparr>"

definition ex_redirect :: route_result where
  "ex_redirect =
     \<lparr>dest = ''/new/page'', status = Some 301,
      headers = Some [(''Location'', ''/new/page''), (''X-Reason'', ''moved'')], uri_args = None\<rparr>"

definition ex_io_B :: "(unit, unit) collaborators_B" where
  "ex_io_B =
     \<lparr>collectProjectFiles = (\<lambda>dir. None),
      getBuildMatches = (\<lambda>cfg dir. Inr [\<lparr>src = ''api/*.js'', use = ''@now/node''\<rparr>]),
      devRouter_B = (\<lambda>u rs this. ex_redirect),
      isURL_B = (\<lambda>s. startsWith s ''http://'' \<or> startsWith s ''https://''),
      dotenv_message = (\<lambda>t missing. ''missing variables'')\<rparr>"









section \<open>Properties\<close>

subsection \<open>Objects\<close>

lemma hasOwnProperty_map_of: "hasOwnProperty obj prop \<longleftrightarrow> map_of obj prop \<noteq> None"
  by (simp add: hasOwnProperty_def Object_keys_def map_of_eq_None_iff)

lemma map_of_Object_assign:
  "map_of (Object_assign target source) = map_of target ++ map_of (rev source)"
  unfolding Object_assign_def
proof (induction source arbitrary: target)
  case Nil
  show ?case by simp
next
  case (Cons p ps)
  obtain k v where p: "p = (k, v)" by (cases p)
  have "map_of (fold (\<lambda>(key, value). AList.update key value) (p # ps) target) =
        map_of (AList.update k v target) ++ map_of (rev ps)"
    using Cons.IH [of "AList.update k v target"] by (simp add: p)
  also have "\<dots> = (map_of target)(k \<mapsto> v) ++ map_of (rev ps)"
    by (simp only: update_conv')
  also have "\<dots> = map_of target ++ map_of (rev (p # ps))"
    by (rule ext) (simp add: p map_add_def split: option.splits)
  finally show ?case .
qed

lemma distinct_Object_assign:
  "distinct (Object_keys target) \<Longrightarrow> distinct (Object_keys (Object_assign target source))"
  unfolding Object_assign_def Object_keys_def
  by (induction source arbitrary: target) (auto simp: distinct_update)

lemma map_of_rev_distinct:
  "distinct (Object_keys xs) \<Longrightarrow> map_of (rev xs) = map_of xs"
  unfolding Object_keys_def
  by (rule map_of_inject_set[THEN iffD2]) (simp_all add: rev_map[symmetric])

lemma map_of_fold_delete:
  "map_of (fold (\<lambda>key e. if P key then AList.delete key e else e) ks e) k =
     (if k \<in> set ks \<and> P k then None else map_of e k)"
  by (induction ks arbitrary: e) (auto simp: delete_conv')

lemma keys_eq_of_map_of_eq:
  "map_of xs = map_of ys \<Longrightarrow> set (Object_keys xs) = set (Object_keys ys)"
  unfolding Object_keys_def
  by (metis dom_map_of_conv_image_fst set_map)

subsection \<open>The build environment\<close>

lemma constructor_B_originalEnv:
  "distinct (Object_keys (originalEnv (constructor_B dir process_env)))"
  using distinct_Object_assign [of "[]" process_env] by (simp add: constructor_B_def Object_keys_def)

lemma restoreOriginalEnv_map:
  assumes "distinct (Object_keys (originalEnv this))"
  shows "map_of (restoreOriginalEnv this e) = map_of (originalEnv this)"
proof (rule ext)
  fix k
  show "map_of (restoreOriginalEnv this e) k = map_of (originalEnv this) k"
  proof (cases "map_of (originalEnv this) k")
    case (Some v)
    then show ?thesis
      by (simp add: restoreOriginalEnv_def map_of_Object_assign map_of_rev_distinct [OF assms]
            map_add_def)
  next
    case None
    then have "\<not> hasOwnProperty (originalEnv this) k"
      by (simp add: hasOwnProperty_map_of)
    moreover have "k \<notin> set (Object_keys e) \<Longrightarrow> map_of e k = None"
      by (simp add: Object_keys_def map_of_eq_None_iff)
    ultimately show ?thesis
      using None
      by (auto simp add: restoreOriginalEnv_def map_of_Object_assign map_of_rev_distinct [OF assms]
            map_add_def map_of_fold_delete)
  qed
qed

text \<open>
  C7. \<open>originalEnv\<close> is the snapshot of \<open>process.env\<close> the constructor takes (an object:
  its keys are distinct). Whatever the process environment is when the build starts,
  after \<open>applyBuildEnv\<close>, any further variables \<open>added\<close> while the builders run, and
  \<open>restoreOriginalEnv\<close>, the process environment has exactly the keys of the snapshot,
  each with the snapshot's value.
\<close>

theorem build_env_round_trip:
  assumes "distinct (Object_keys (originalEnv this))"
  shows "map_of (restoreOriginalEnv this
                   (Object_assign (applyBuildEnv this nowJson process_env) added)) =
           map_of (originalEnv this)
       \<and> set (Object_keys (restoreOriginalEnv this
                   (Object_assign (applyBuildEnv this nowJson process_env) added))) =
           set (Object_keys (originalEnv this))"
  using restoreOriginalEnv_map [OF assms] keys_eq_of_map_of_eq by blast

theorem build_env_round_trip_witness:
  "distinct (Object_keys (originalEnv ex_server))
   \<and> applyBuildEnv ex_server ex_config (originalEnv ex_server) =
       [(''PATH'', ''/build/bin''), (''HOME'', ''/root''), (''NODE_ENV'', ''production''),
        (''TOKEN'', ''local'')]
   \<and> map_of (restoreOriginalEnv ex_server
        (Object_assign (applyBuildEnv ex_server ex_config (originalEnv ex_server))
           [(''TMPDIR'', ''/tmp/b'')]))
      = map_of [(''PATH'', ''/usr/bin''), (''HOME'', ''/root'')]"
proof -
  have d: "distinct (Object_keys (originalEnv ex_server))"
    by (simp add: ex_server_def constructor_B_def Object_assign_def Object_keys_def)
  have o: "originalEnv ex_server = [(''PATH'', ''/usr/bin''), (''HOME'', ''/root'')]"
    by (simp add: ex_server_def constructor_B_def Object_assign_def)
  have a: "applyBuildEnv ex_server ex_config (originalEnv ex_server) =
       [(''PATH'', ''/build/bin''), (''HOME'', ''/root''), (''NODE_ENV'', ''production''),
        (''TOKEN'', ''local'')]"
    by (simp add: o) (simp add: ex_server_def ex_config_def constructor_B_def Object_assign_def
          applyBuildEnv_def)
  show ?thesis
    using d a build_env_round_trip [OF d, of ex_config "originalEnv ex_server" "[(''TMPDIR'', ''/tmp/b'')]"]
    by (simp add: o)
qed

subsection \<open>Validation of the env sections\<close>






subsection \<open>Binding the port\<close>

lemma start_listen_in_use:
  "in_use listen port \<Longrightarrow> start_listen listen port = start_listen listen (port + 1)"
  by (subst start_listen.simps) (auto simp: in_use_def split: listen_result.splits)

lemma start_listen_skip:
  "(\<forall>i<k. in_use listen (port + i)) \<Longrightarrow> start_listen listen port = start_listen listen (port + k)"
proof (induction k arbitrary: port)
  case 0
  show ?case by simp
next
  case (Suc k)
  have "in_use listen port" using Suc.prems by force
  then have "start_listen listen port = start_listen listen (port + 1)"
    by (rule start_listen_in_use)
  also have "\<dots> = start_listen listen (port + 1 + k)"
  proof (rule Suc.IH, intro allI impI)
    fix i assume "i < k"
    then have "in_use listen (port + Suc i)" using Suc.prems by blast
    then show "in_use listen (port + 1 + i)" by simp
  qed
  finally show ?case by simp
qed

text \<open>The loop returns only when some port from the requested one on is not in use.\<close>

lemma start_listen_returns:
  assumes "start_listen listen port = Some r"
  shows "\<exists>p\<ge>port. \<not> in_use listen p"
proof (rule start_listen.raw_induct [where P = "\<lambda>l p r. \<exists>q\<ge>p. \<not> in_use l q", OF _ assms])
  fix f :: "(nat \<Rightarrow> listen_result) \<Rightarrow> nat \<Rightarrow> (js_error + string \<times> nat) option"
  fix l p y
  assume IH: "\<And>l' p' y'. f l' p' = Some y' \<Longrightarrow> \<exists>q\<ge>p'. \<not> in_use l' q"
  assume body: "(case l p of
                   Address address \<Rightarrow> Some (Inr (address, p))
                 | Throws err \<Rightarrow>
                     if err_code err = Some ''EADDRINUSE'' then f l (p + 1)
                     else Some (Inl err)) = Some y"
  show "\<exists>q\<ge>p. \<not> in_use l q"
  proof (cases "in_use l p")
    case False
    then show ?thesis by blast
  next
    case True
    then have "f l (p + 1) = Some y"
      using body by (auto simp: in_use_def split: listen_result.splits)
    then have "\<exists>q\<ge>p + 1. \<not> in_use l q" by (rule IH)
    then show ?thesis by (meson add_leD1)
  qed
qed

text \<open>
  C10. When the requested port and the \<open>k - 1\<close> ports after it are in use, the loop of
  \<open>start\<close> goes on to the port \<open>k\<close> above the requested one: if \<open>listen\<close> succeeds there
  the server listens on that port, and if it throws an error with another code the
  loop ends and \<open>start\<close> throws that error.
\<close>

theorem start_listen_next_free_port:
  assumes "\<forall>i<k. in_use listen (port + i)"
  shows "(listen (port + k) = Address address \<longrightarrow>
            start_listen listen port = Some (Inr (address, port + k)))
       \<and> (listen (port + k) = Throws err \<and> err_code err \<noteq> Some ''EADDRINUSE'' \<longrightarrow>
            start_listen listen port = Some (Inl err))"
proof -
  have skip: "start_listen listen port = start_listen listen (port + k)"
    using assms by (rule start_listen_skip)
  have "listen (port + k) = Address address \<Longrightarrow>
          start_listen listen (port + k) = Some (Inr (address, port + k))"
    by (subst start_listen.simps) simp
  moreover have "listen (port + k) = Throws err \<Longrightarrow> err_code err \<noteq> Some ''EADDRINUSE'' \<Longrightarrow>
          start_listen listen (port + k) = Some (Inl err)"
    by (subst start_listen.simps) simp
  ultimately show ?thesis
    by (simp add: skip)
qed

theorem start_listen_next_free_port_witness:
  "in_use ex_listen 3000 \<and> in_use ex_listen 3001
   \<and> start_listen ex_listen 3000 = Some (Inr (''http://[::]:3002'', 3002))
   \<and> start_listen ex_listen 3003 = Some (Inl (Error (Some ''EACCES'') ''permission denied''))"
proof -
  have u: "\<forall>i<2. in_use ex_listen (3000 + i)"
    by (simp add: in_use_def ex_listen_def)
  have z: "\<forall>i<0. in_use ex_listen (3003 + i)"
    by simp
  have "in_use ex_listen 3000 \<and> in_use ex_listen 3001"
    by (simp add: in_use_def ex_listen_def)
  then show ?thesis
    using start_listen_next_free_port [OF u, of "''http://[::]:3002''"]
      start_listen_next_free_port [OF z, of _ "Error (Some ''EACCES'') ''permission denied''"]
    by (simp add: ex_listen_def)
qed

subsection \<open>The request trace id\<close>

lemma digit_char_take:
  assumes "n < k" and "k \<le> 32"
  shows "digit_char n \<in> set (take k ''0123456789abcdefghijklmnopqrstuv'')"
proof -
  let ?T = "''0123456789abcdefghijklmnopqrstuv''"
  have "digit_char n = take k ?T ! n"
    using assms by (simp only: digit_char_def nth_take)
  moreover have "n < length (take k ?T)"
    using assms by simp
  ultimately show ?thesis
    by (simp only: nth_mem)
qed

lemma digit_char_hex: "n < 16 \<Longrightarrow> is_hex_digit (digit_char n)"
  using digit_char_take [of n 16] by (simp add: is_hex_digit_def)

lemma digit_char_decimal: "n < 10 \<Longrightarrow> is_decimal_digit (digit_char n)"
  using digit_char_take [of n 10] by (simp add: is_decimal_digit_def)

lemma index_of_nth: "distinct xs \<Longrightarrow> n < length xs \<Longrightarrow> index_of (xs ! n) xs = Some n"
proof (induction xs arbitrary: n)
  case Nil
  then show ?case by simp
next
  case (Cons x xs)
  show ?case
  proof (cases n)
    case 0
    then show ?thesis by simp
  next
    case (Suc m)
    then have "xs ! m \<in> set xs" using Cons.prems by simp
    then have "x \<noteq> xs ! m" using Cons.prems by auto
    then show ?thesis using Suc Cons by simp
  qed
qed

lemma digit_char_value: "n < 10 \<Longrightarrow> digit_value (digit_char n) = n"
proof -
  assume n: "n < 10"
  have "digit_char n = ''0123456789'' ! n"
  proof -
    have "digit_char n = take 10 ''0123456789abcdefghijklmnopqrstuv'' ! n"
      using n by (simp only: digit_char_def nth_take)
    then show ?thesis by simp
  qed
  moreover have "index_of (''0123456789'' ! n) ''0123456789'' = Some n"
    using n by (intro index_of_nth) simp_all
  ultimately show ?thesis
    by (simp only: digit_value_def option.case)
qed

lemma show_nat_digits: "list_all is_decimal_digit (show_nat n) \<and> show_nat n \<noteq> []"
proof (induction n rule: show_nat.induct)
  case (1 n)
  show ?case
  proof (cases "n < 10")
    case True
    then show ?thesis by (simp add: show_nat.simps [of n] digit_char_decimal)
  next
    case False
    then show ?thesis using 1 by (simp add: show_nat.simps [of n] digit_char_decimal)
  qed
qed

lemma decimal_value_show_nat: "decimal_value (show_nat n) = n"
proof (induction n rule: show_nat.induct)
  case (1 n)
  show ?case
  proof (cases "n < 10")
    case True
    then show ?thesis by (simp add: show_nat.simps [of n] decimal_value_def digit_char_value)
  next
    case False
    then have "decimal_value (show_nat (n div 10)) = n div 10" using 1 by simp
    with False show ?thesis
      by (simp add: show_nat.simps [of n] decimal_value_def digit_char_value)
  qed
qed

lemma hex_byte_digits: "list_all is_hex_digit (hex_byte b) \<and> length (hex_byte b) = 2"
proof -
  have "unat b < 2 ^ LENGTH(8)" by (rule unsigned_less)
  then have "unat b < 256" by simp
  then have "unat b div 16 < 16" by simp
  then show ?thesis by (simp add: hex_byte_def digit_char_hex)
qed

lemma toString_hex_digits:
  "list_all is_hex_digit (toString_hex bytes) \<and> length (toString_hex bytes) = 2 * length bytes"
  by (induction bytes) (simp_all add: toString_hex_def hex_byte_digits)

lemma split_no_sep: "c \<notin> set s \<Longrightarrow> split c s = [s]"
  by (induction s) auto

lemma split_at_sep: "c \<notin> set s \<Longrightarrow> split c (s @ c # rest) = s # split c rest"
  by (induction s) auto

lemma no_dash:
  assumes "list_all is_base32_digit s \<or> list_all is_decimal_digit s \<or> list_all is_hex_digit s"
  shows "CHR ''-'' \<notin> set s"
proof -
  have "\<not> is_base32_digit CHR ''-''" "\<not> is_decimal_digit CHR ''-''" "\<not> is_hex_digit CHR ''-''"
    by (simp_all add: is_base32_digit_def is_decimal_digit_def is_hex_digit_def)
  then show ?thesis
    using assms unfolding list_all_iff by blast
qed

lemma length_slice_last: "length (slice_last n s) = min n (length s)"
  by (simp add: slice_last_def)

text \<open>
  C9 (amended). A trace id is the last five characters of the base-32 rendering of the
  random number (the whole rendering when it has fewer than five characters), a dash,
  the time in milliseconds in decimal, a dash, and the 32 lowercase hexadecimal digits
  of the 16 random bytes. When the rendering has at least five characters and its last
  five are base-32 digits, the id has the format \<open><rand5>-<epochMillis>-<hex32>\<close>.
\<close>

theorem generateRequestId_format:
  assumes "length bytes = 16"
  shows "generateRequestId random32 now bytes =
           slice_last 5 random32 @ ''-'' @ show_nat now @ ''-'' @ toString_hex bytes
       \<and> slice_last 5 random32 = drop (length random32 - 5) random32
       \<and> length (slice_last 5 random32) = min 5 (length random32)
       \<and> list_all is_decimal_digit (show_nat now) \<and> decimal_value (show_nat now) = now
       \<and> length (toString_hex bytes) = 32 \<and> list_all is_hex_digit (toString_hex bytes)
       \<and> (5 \<le> length random32 \<and> list_all is_base32_digit (slice_last 5 random32) \<longrightarrow>
            trace_id_format (generateRequestId random32 now bytes))"
proof -
  let ?f = "slice_last 5 random32" and ?t = "show_nat now" and ?h = "toString_hex bytes"
  have id: "generateRequestId random32 now bytes = ?f @ ''-'' @ ?t @ ''-'' @ ?h"
    by (simp add: generateRequestId_def)
  have t: "list_all is_decimal_digit ?t" "?t \<noteq> []"
    using show_nat_digits [of now] by simp_all
  have h: "list_all is_hex_digit ?h" "length ?h = 32"
    using toString_hex_digits [of bytes] assms by simp_all
  have fmt: "trace_id_format (?f @ ''-'' @ ?t @ ''-'' @ ?h)"
    if "5 \<le> length random32" and f: "list_all is_base32_digit ?f"
  proof -
    have "split CHR ''-'' (?f @ ''-'' @ ?t @ ''-'' @ ?h) = [?f, ?t, ?h]"
      using no_dash [of ?f] no_dash [of ?t] no_dash [of ?h] f t h
      by (simp add: split_at_sep split_no_sep)
    then show ?thesis
      using that t h by (simp add: trace_id_format_def length_slice_last)
  qed
  show ?thesis
    using id t h fmt by (simp add: length_slice_last decimal_value_show_nat slice_last_def)
qed

theorem generateRequestId_format_witness:
  "length ex_bytes = 16
   \<and> generateRequestId ''0.4fq1lt24u'' 1553895116335 ex_bytes =
       ''lt24u-1553895116335-784edbc9ef03e2b5534f3dc6f14c90d4''
   \<and> trace_id_format (generateRequestId ''0.4fq1lt24u'' 1553895116335 ex_bytes)"
proof -
  have l: "length ex_bytes = 16"
    by (simp add: ex_bytes_def)
  have g: "generateRequestId ''0.4fq1lt24u'' 1553895116335 ex_bytes =
       ''lt24u-1553895116335-784edbc9ef03e2b5534f3dc6f14c90d4''"
    by (simp add: generateRequestId_def slice_last_def show_nat.simps toString_hex_def
          hex_byte_def digit_char_def ex_bytes_def)
  have b: "5 \<le> length ''0.4fq1lt24u'' \<and> list_all is_base32_digit (slice_last 5 ''0.4fq1lt24u'')"
    by (simp add: slice_last_def is_base32_digit_def)
  have "trace_id_format (generateRequestId ''0.4fq1lt24u'' 1553895116335 ex_bytes)"
    using generateRequestId_format [OF l, of "''0.4fq1lt24u''" 1553895116335] b by blast
  with l g show ?thesis by blast
qed

text \<open>
  C9 as stated fails when the rendering is short: \<open>Math.random()\<close> may return
  \<open>0.5\<close>, whose base-32 rendering is \<open>0.g\<close>; the first field is then those three
  characters, one of them the point.
\<close>

theorem generateRequestId_short_random_counterexample:
  "generateRequestId ''0.g'' 1553895116335 ex_bytes =
     ''0.g-1553895116335-784edbc9ef03e2b5534f3dc6f14c90d4''
   \<and> \<not> trace_id_format (generateRequestId ''0.g'' 1553895116335 ex_bytes)"
proof -
  have g: "generateRequestId ''0.g'' 1553895116335 ex_bytes =
     ''0.g-1553895116335-784edbc9ef03e2b5534f3dc6f14c90d4''"
    by (simp add: generateRequestId_def slice_last_def show_nat.simps toString_hex_def
          hex_byte_def digit_char_def ex_bytes_def)
  have "\<not> trace_id_format ''0.g-1553895116335-784edbc9ef03e2b5534f3dc6f14c90d4''"
    by (simp add: trace_id_format_def)
  with g show ?thesis by simp
qed

subsection \<open>Resolving a destination\<close>












subsection \<open>Responses and headers\<close>

lemma toLowerCase_now_headers:
  "toLowerCase ''x-now-trace'' = ''x-now-trace''"
  "toLowerCase ''x-now-id'' = ''x-now-id''"
  "toLowerCase ''x-now-cache'' = ''x-now-cache''"
  "toLowerCase ''Connection'' = ''connection''"
  "toLowerCase ''connection'' = ''connection''"
  "toLowerCase ''location'' = ''location''"
  "toLowerCase ''Location'' = ''location''"
  by (simp_all add: toLowerCase_def toLowerCase_char_def)

lemma writeResponseHeaders_empty:
  "writeResponseHeaders res nowRequestId [] =
     setHeader ''x-now-cache'' ''MISS''
       (setHeader ''x-now-id'' nowRequestId (setHeader ''x-now-trace'' ''dev1'' res))"
  by (simp add: writeResponseHeaders_def Object_assign_def)

lemma show_nat_404: "show_nat 404 = ''404''"
  by (simp add: show_nat.simps digit_char_def)

lemma send404_stopping:
  "send404 (setHeader ''Connection'' ''close'' new_response) nowRequestId =
     Ended \<lparr>statusCode = 404,
            res_headers = [(''connection'', ''close''), (''x-now-trace'', ''dev1''),
                           (''x-now-id'', nowRequestId), (''x-now-cache'', ''MISS'')],
            res_body = Some not_found_body\<rparr>"
  by (simp add: send404_def sendError_def writeResponseHeaders_empty setHeader_def
        toLowerCase_now_headers new_response_def end_response_def show_nat_404 not_found_body_def)






subsection \<open>Shutdown\<close>

lemma stop_when_stopping:
  "stopping this \<Longrightarrow> stop destroy this = \<lparr>settled = Inr (), destroyed = [], after = this\<rparr>"
  by (simp add: stop_def stop_begin_def)

lemma stopping_after_stop: "stopping (after (stop destroy this))"
  by (cases "stopping this")
     (simp_all add: stop_def stop_begin_def Let_def split: prod.splits)

lemma destroyed_by_stop:
  "\<not> stopping this \<Longrightarrow>
   destroyed (stop destroy this) = List.map_filter lambda_fn (Object_values (assets this))"
  by (simp add: stop_def stop_begin_def Let_def split: prod.splits)

lemma set_map_filter_lambda_fn:
  "set (List.map_filter lambda_fn xs) = {fn. \<exists>asset\<in>set xs. type asset = Lambda (Some fn)}"
proof (induction xs)
  case Nil
  show ?case by (simp add: map_filter_simps)
next
  case (Cons x xs)
  show ?case
  proof (cases "lambda_fn x")
    case None
    then have "\<And>fn. type x \<noteq> Lambda (Some fn)"
      by (auto simp: lambda_fn_def)
    with None Cons show ?thesis
      by (auto simp: map_filter_simps)
  next
    case (Some f)
    then have "type x = Lambda (Some f)"
      by (auto simp: lambda_fn_def split: asset_type.splits)
    with Some Cons show ?thesis
      by (auto simp: map_filter_simps)
  qed
qed

lemma stop_settled:
  assumes "\<not> stopping this" and "settled (stop destroy this) = Inr ()"
  shows "server (after (stop destroy this)) = Closed \<and> (\<exists>port. server this = Listening port)"
proof (cases "server this")
  case (Listening port)
  then show ?thesis using assms by (simp add: stop_def stop_begin_def close_def)
next
  case NotListening
  then have "settled (stop destroy this) \<noteq> Inr ()"
    using assms(1)
    by (cases "List.map_filter destroy (List.map_filter lambda_fn (Object_values (assets this)))")
       (simp_all add: stop_def stop_begin_def close_def)
  with assms show ?thesis by simp
next
  case Closed
  then have "settled (stop destroy this) \<noteq> Inr ()"
    using assms(1)
    by (cases "List.map_filter destroy (List.map_filter lambda_fn (Object_values (assets this)))")
       (simp_all add: stop_def stop_begin_def close_def)
  with assms show ?thesis by simp
qed

lemma devServerHandler_B_stopping:
  "stopping this \<Longrightarrow>
   devServerHandler_B io this req random32 now bytes config_file =
     (Ended \<lparr>statusCode = 404,
             res_headers = [(''connection'', ''close''), (''x-now-trace'', ''dev1''),
                            (''x-now-id'', generateRequestId random32 now bytes),
                            (''x-now-cache'', ''MISS'')],
             res_body = Some not_found_body\<rparr>,
      this)"
  by (simp add: devServerHandler_B_def Let_def send404_stopping)

text \<open>
  C8. A call of \<open>stop\<close> on a stopping server changes nothing and calls nothing, so a
  second call is a no-op. A first call sets \<open>stopping\<close> before it waits
  (\<open>stop_begin\<close>), calls \<open>destroy()\<close> on the handle of every asset of type Lambda that
  has one, and resolves only when the server was listening and has closed. A stopping
  server answers every request with the \<open>404\<close> \<open>FILE_NOT_FOUND\<close> response and the
  header \<open>Connection: close\<close>, whatever the request, the configuration, the router and
  the assets are, and leaves its state as it is.
\<close>

theorem stop_shutdown:
  "(stopping this \<longrightarrow> stop destroy this = \<lparr>settled = Inr (), destroyed = [], after = this\<rparr>)
 \<and> stop destroy' (after (stop destroy this)) =
     \<lparr>settled = Inr (), destroyed = [], after = after (stop destroy this)\<rparr>
 \<and> (\<not> stopping this \<longrightarrow>
      (\<exists>fns. stop_begin this = Some (this\<lparr>stopping := True\<rparr>, fns))
    \<and> set (destroyed (stop destroy this)) =
        {fn. \<exists>asset\<in>set (Object_values (assets this)). type asset = Lambda (Some fn)}
    \<and> (settled (stop destroy this) = Inr () \<longrightarrow>
         server (after (stop destroy this)) = Closed \<and> (\<exists>port. server this = Listening port)))
 \<and> (stopping this \<longrightarrow>
      devServerHandler_B io this req random32 now bytes config_file =
        (Ended \<lparr>statusCode = 404,
                res_headers = [(''connection'', ''close''), (''x-now-trace'', ''dev1''),
                               (''x-now-id'', generateRequestId random32 now bytes),
                               (''x-now-cache'', ''MISS'')],
                res_body = Some not_found_body\<rparr>,
         this))"
proof -
  have "stop destroy' (after (stop destroy this)) =
     \<lparr>settled = Inr (), destroyed = [], after = after (stop destroy this)\<rparr>"
    using stopping_after_stop by (rule stop_when_stopping)
  moreover have "\<exists>fns. stop_begin this = Some (this\<lparr>stopping := True\<rparr>, fns)"
    if "\<not> stopping this"
    using that by (simp add: stop_begin_def)
  moreover have "set (destroyed (stop destroy this)) =
        {fn. \<exists>asset\<in>set (Object_values (assets this)). type asset = Lambda (Some fn)}"
    if "\<not> stopping this"
    using destroyed_by_stop [OF that, of destroy] by (simp only: set_map_filter_lambda_fn)
  ultimately show ?thesis
    using stop_when_stopping [of this destroy] stop_settled [of this destroy]
      devServerHandler_B_stopping [of this io req random32 now bytes config_file]
    by blast
qed

lemma stop_ex_running:
  "stop (\<lambda>fn. None) ex_running =
     \<lparr>settled = Inr (), destroyed = [7, 9],
      after = ex_running\<lparr>stopping := True, server := Closed\<rparr>\<rparr>"
  by (simp add: stop_def stop_begin_def close_def map_filter_simps lambda_fn_def Object_values_def
        ex_running_def ex_server_def constructor_B_def ex_about_def ex_lambda_def
        ex_unbuilt_lambda_def)

theorem stop_shutdown_witness:
  "\<not> stopping ex_running
   \<and> stop (\<lambda>fn. None) ex_running =
       \<lparr>settled = Inr (), destroyed = [7, 9],
        after = ex_running\<lparr>stopping := True, server := Closed\<rparr>\<rparr>
   \<and> stop (\<lambda>fn. None) (ex_running\<lparr>stopping := True, server := Closed\<rparr>) =
       \<lparr>settled = Inr (), destroyed = [],
        after = ex_running\<lparr>stopping := True, server := Closed\<rparr>\<rparr>
   \<and> fst (devServerHandler_B ex_io_B (ex_running\<lparr>stopping := True, server := Closed\<rparr>)
              ex_request ''0.4fq1lt24u'' 1553895116335 ex_bytes (Inr ex_config)) =
       Ended \<lparr>statusCode = 404,
              res_headers = [(''connection'', ''close''), (''x-now-trace'', ''dev1''),
                             (''x-now-id'', ''lt24u-1553895116335-784edbc9ef03e2b5534f3dc6f14c90d4''),
                             (''x-now-cache'', ''MISS'')],
              res_body = Some not_found_body\<rparr>"
proof -
  have s: "\<not> stopping ex_running"
    by (simp add: ex_running_def ex_server_def constructor_B_def)
  have s': "stopping (ex_running\<lparr>stopping := True, server := Closed\<rparr>)"
    by simp
  have g: "generateRequestId ''0.4fq1lt24u'' 1553895116335 ex_bytes =
       ''lt24u-1553895116335-784edbc9ef03e2b5534f3dc6f14c90d4''"
    by (simp add: generateRequestId_def slice_last_def show_nat.simps toString_hex_def
          hex_byte_def digit_char_def ex_bytes_def)
  note t = stop_shutdown [of "ex_running\<lparr>stopping := True, server := Closed\<rparr>" "\<lambda>fn. None"
      "\<lambda>fn. None" ex_io_B ex_request "''0.4fq1lt24u''" 1553895116335 ex_bytes "Inr ex_config"]
  have "stop (\<lambda>fn. None) (ex_running\<lparr>stopping := True, server := Closed\<rparr>) =
       \<lparr>settled = Inr (), destroyed = [],
        after = ex_running\<lparr>stopping := True, server := Closed\<rparr>\<rparr>"
    using t s' by blast
  moreover have "fst (devServerHandler_B ex_io_B (ex_running\<lparr>stopping := True, server := Closed\<rparr>)
              ex_request ''0.4fq1lt24u'' 1553895116335 ex_bytes (Inr ex_config)) =
       Ended \<lparr>statusCode = 404,
              res_headers = [(''connection'', ''close''), (''x-now-trace'', ''dev1''),
                             (''x-now-id'', ''lt24u-1553895116335-784edbc9ef03e2b5534f3dc6f14c90d4''),
                             (''x-now-cache'', ''MISS'')],
              res_body = Some not_found_body\<rparr>"
    using t s' by (simp add: g)
  ultimately show ?thesis
    using s stop_ex_running by blast
qed

subsection \<open>Redirects\<close>





subsection \<open>The Now headers (variant A)\<close>
























subsection \<open>Lambda invocations (variant A)\<close>

lemma end_response_fields:
  "response_of (end_response res data) = res\<lparr>res_body := data\<rparr>"
  by (simp add: end_response_def)





subsection \<open>The examples of variant A\<close>













end
